theory Spec2Isabelle
  imports Complex_Main
begin

section \<open>Data model\<close>

text \<open>
  The program (\<^verbatim>\<open>streamlit_app.py\<close>) works on two tables: a GeoDataFrame of QPV
  polygons and a DataFrame of ZRR municipalities. A table cell is a missing value, an
  integer, a text, or another scalar (a float, a boolean), which is given by the text
  Python's \<^verbatim>\<open>str\<close> makes of it, the one thing the program reads of such a cell.
  Distances are real numbers: the rounding of IEEE doubles is not modelled.
\<close>

datatype cell = NaN | CInt int | CStr string | COther string

datatype error = ValueError | KeyError | EmptyDataError | ParserError | AttributeError

text \<open>A coordinate reference system either carries an EPSG code or is given by its text only.\<close>

datatype crs = EPSG int | OtherCRS string

fun to_epsg :: "crs \<Rightarrow> int option" where
  "to_epsg (EPSG n) = Some n"
| "to_epsg (OtherCRS w) = None"

text \<open>
  A row of the GeoDataFrame: its geometry and its attribute cells, read by column name.
  The frame lists the attribute columns it has; a cell read under a name that is not a
  column is never used. Every row has a geometry, and the rows are labelled by their
  positions (the index \<^verbatim>\<open>read_file\<close> gives), so that \<^verbatim>\<open>.loc\<close> on the label
  \<^verbatim>\<open>idxmin\<close> returns is the row at that position.
\<close>

record 'g feature =
  geometry :: 'g
  attrs :: "string \<Rightarrow> cell"

record 'g geodataframe =
  gdf_crs :: "crs option"
  gdf_columns :: "string list"
  gdf_rows :: "'g feature list"

text \<open>\<^verbatim>\<open>gpd.GeoDataFrame()\<close>: no CRS, no column, no row.\<close>

definition GeoDataFrame_empty :: "'g geodataframe" where
  "GeoDataFrame_empty = \<lparr>gdf_crs = None, gdf_columns = [], gdf_rows = []\<rparr>"

text \<open>\<^verbatim>\<open>qpv_gdf.empty\<close>: a frame that has rows has its geometry column, so it is empty
  exactly when it has no row.\<close>

definition gdf_empty :: "'g geodataframe \<Rightarrow> bool" where
  "gdf_empty gdf = (gdf_rows gdf = [])"

text \<open>\<^verbatim>\<open>row.get(col)\<close>: the cell, or None when the frame has no such column.\<close>

definition row_get :: "string list \<Rightarrow> 'g feature \<Rightarrow> string \<Rightarrow> cell option" where
  "row_get cols row col = (if col \<in> set cols then Some (attrs row col) else None)"

definition QPV_GEO_PATH :: string where
  "QPV_GEO_PATH = ''QP2024_France_Hexagonale_Outre_Mer_WGS84.gpkg''"
definition ZRR_CSV_PATH :: string where "ZRR_CSV_PATH = ''ZRR_list_source.csv''"

definition COL_CODE_QP :: string where "COL_CODE_QP = ''code_qp''"
definition COL_LIB_QP :: string where "COL_LIB_QP = ''lib_qp''"
definition COL_LIB_COM :: string where "COL_LIB_COM = ''lib_com''"
definition ZRR_LIB_COL :: string where "ZRR_LIB_COL = ''LIBGEO''"

text \<open>The dictionaries the proximity computation returns.\<close>

record qpv_ident =
  code_qp :: "cell option"
  lib_qp :: "cell option"
  commune_qp :: "cell option"

record qpv_nearest = qpv_ident +
  nearest_distance_km :: real

record proximity =
  est_dans_qpv :: bool
  distance_km :: real
  a_moins_1km_qpv :: bool
  qpv_dans_lesquels :: "qpv_ident list"
  qpv_plus_proche :: qpv_nearest

section \<open>Series reductions\<close>

text \<open>\<^verbatim>\<open>Series.min()\<close> and \<^verbatim>\<open>Series.idxmin()\<close> on a series of distances; \<^verbatim>\<open>idxmin\<close>
  gives the first position of the minimum and raises on an empty series.\<close>

fun series_min :: "real list \<Rightarrow> real option" where
  "series_min [] = None"
| "series_min (d # ds) = Some (fold min ds d)"

fun idxmin :: "real list \<Rightarrow> nat option" where
  "idxmin [] = None"
| "idxmin (d # ds) =
     (case idxmin ds of
        None \<Rightarrow> Some 0
      | Some i \<Rightarrow> if d \<le> ds ! i then Some 0 else Some (Suc i))"

section \<open>Proximity of a point to the QPV polygons\<close>

text \<open>
  The geometry library is a parameter of the model: \<open>to_crs src dst\<close> reprojects a point,
  \<open>contains g p\<close> is shapely's predicate on a polygon and a point, \<open>distance g p\<close> the
  planar distance in metres. Reprojecting to an absent CRS raises ValueError.
\<close>

definition ident_of :: "string list \<Rightarrow> 'g feature \<Rightarrow> qpv_ident" where
  "ident_of cols row =
     \<lparr>code_qp = row_get cols row COL_CODE_QP,
      lib_qp = row_get cols row COL_LIB_QP,
      commune_qp = row_get cols row COL_LIB_COM\<rparr>"

definition calcul_proximite_qpv ::
  "(crs \<Rightarrow> crs \<Rightarrow> 'p \<Rightarrow> 'p) \<Rightarrow> ('g \<Rightarrow> 'p \<Rightarrow> bool) \<Rightarrow> ('g \<Rightarrow> 'p \<Rightarrow> real) \<Rightarrow>
   'p option \<Rightarrow> 'g geodataframe \<Rightarrow> error + proximity option" where
  "calcul_proximite_qpv to_crs contains distance pt_wgs qpv_gdf =
     (case pt_wgs of
        None \<Rightarrow> Inr None
      | Some pt \<Rightarrow>
          if gdf_empty qpv_gdf then Inr None
          else
            (case gdf_crs qpv_gdf of
               None \<Rightarrow> Inl ValueError
             | Some c \<Rightarrow>
                 let pt_proj = to_crs (EPSG 4326) c pt;
                     qpv_inside = filter (\<lambda>row. contains (geometry row) pt_proj) (gdf_rows qpv_gdf);
                     dans = (qpv_inside \<noteq> []);
                     lesquels = (if dans then map (ident_of (gdf_columns qpv_gdf)) qpv_inside else []);
                     distances_m = map (\<lambda>row. distance (geometry row) pt_proj) (gdf_rows qpv_gdf)
                 in
                   (case (series_min distances_m, idxmin distances_m) of
                      (Some min_dist_m, Some idx_min) \<Rightarrow>
                        let km = min_dist_m / 1000;
                            row_min = gdf_rows qpv_gdf ! idx_min
                        in Inr (Some
                             \<lparr>est_dans_qpv = dans,
                              distance_km = km,
                              a_moins_1km_qpv = (km \<le> 1),
                              qpv_dans_lesquels = lesquels,
                              qpv_plus_proche =
                                \<lparr>code_qp = row_get (gdf_columns qpv_gdf) row_min COL_CODE_QP,
                                 lib_qp = row_get (gdf_columns qpv_gdf) row_min COL_LIB_QP,
                                 commune_qp = row_get (gdf_columns qpv_gdf) row_min COL_LIB_COM,
                                 nearest_distance_km = km\<rparr>\<rparr>)
                    | _ \<Rightarrow> Inl ValueError)))"

section \<open>Loading the QPV polygons\<close>

text \<open>
  The file system maps a path to the GeoDataFrame \<^verbatim>\<open>gpd.read_file\<close> reads there, or to
  nothing when no file exists. \<open>to_crs_geom src dst\<close> reprojects one geometry.
\<close>

definition gdf_to_crs ::
  "(crs \<Rightarrow> crs \<Rightarrow> 'g \<Rightarrow> 'g) \<Rightarrow> crs \<Rightarrow> crs \<Rightarrow> 'g geodataframe \<Rightarrow> 'g geodataframe" where
  "gdf_to_crs to_crs_geom src dst gdf =
     gdf\<lparr>gdf_crs := Some dst,
         gdf_rows := map (\<lambda>row. row\<lparr>geometry := to_crs_geom src dst (geometry row)\<rparr>) (gdf_rows gdf)\<rparr>"

definition load_qpv_polygones ::
  "(crs \<Rightarrow> crs \<Rightarrow> 'g \<Rightarrow> 'g) \<Rightarrow> (string \<Rightarrow> 'g geodataframe option) \<Rightarrow> string \<Rightarrow>
   error + 'g geodataframe" where
  "load_qpv_polygones to_crs_geom fs path =
     (case fs path of
        None \<Rightarrow> Inr GeoDataFrame_empty
      | Some gdf \<Rightarrow>
          (case gdf_crs gdf of
             None \<Rightarrow> Inl ValueError
           | Some c \<Rightarrow>
               if to_epsg c \<noteq> Some 2154 then Inr (gdf_to_crs to_crs_geom c (EPSG 2154) gdf)
               else Inr gdf))"

section \<open>Text of a number, zero padding\<close>

definition digit_char :: "nat \<Rightarrow> char" where
  "digit_char n = ''0123456789'' ! n"

function digits :: "nat \<Rightarrow> string" where
  "digits n = (if n < 10 then [digit_char n] else digits (n div 10) @ [digit_char (n mod 10)])"
  by pat_completeness auto
termination
  by (relation "measure (\<lambda>n. n)") auto

declare digits.simps [simp del]

text \<open>Python's \<^verbatim>\<open>str\<close> on an integer.\<close>

definition str_int :: "int \<Rightarrow> string" where
  "str_int i = (if i < 0 then CHR ''-'' # digits (nat (- i)) else digits (nat i))"

text \<open>Python's \<^verbatim>\<open>str.zfill\<close>: zeros go after a leading sign; a text that is long enough
  is returned as it is. \<^verbatim>\<open>Series.str.zfill\<close> applies it to each text of a column (on
  a text without a sign, as municipality codes are, every version of pandas pads so).\<close>

definition zfill :: "nat \<Rightarrow> string \<Rightarrow> string" where
  "zfill width s =
     (if width \<le> length s then s
      else
        (case s of
           [] \<Rightarrow> replicate width CHR ''0''
         | c # rest \<Rightarrow>
             if c = CHR ''+'' \<or> c = CHR ''-''
             then c # replicate (width - length s) CHR ''0'' @ rest
             else replicate (width - length s) CHR ''0'' @ s))"

section \<open>The ZRR table\<close>

text \<open>
  A DataFrame: its column names and its rows, each row read by column name. Reading a
  column that the frame does not have raises KeyError.
\<close>

record dataframe =
  df_columns :: "string list"
  df_rows :: "(string \<Rightarrow> cell) list"

definition DataFrame_empty :: dataframe where
  "DataFrame_empty = \<lparr>df_columns = [], df_rows = []\<rparr>"

definition row_of :: "string list \<Rightarrow> cell list \<Rightarrow> string \<Rightarrow> cell" where
  "row_of names vals col =
     (case map_of (zip names vals) col of Some v \<Rightarrow> v | None \<Rightarrow> NaN)"

text \<open>The cells of one column, from the first row to the last.\<close>

definition column :: "dataframe \<Rightarrow> string \<Rightarrow> cell list" where
  "column df col = map (\<lambda>row. row col) (df_rows df)"

text \<open>
  The CSV file is the list of its records as the tokeniser of pandas yields them, each
  record the list of its raw fields (blank lines, which pandas skips, left out).
  \<^verbatim>\<open>pd.read_csv(path, header=5)\<close> leaves the first five records aside, takes the sixth
  as the column names and builds the frame from these names and the records that follow.
  That construction is pandas' own and a parameter \<open>build\<close> of the model: it types each
  column as a whole (a column of numbers with a missing value is a column of floats),
  recognises missing values, takes the first field as the index when the records have
  one field more than the header, and raises on records it cannot place. An empty file
  raises EmptyDataError, a file with fewer than six records ParserError.
\<close>

definition read_csv_header5 ::
  "(string list \<Rightarrow> string list list \<Rightarrow> error + dataframe) \<Rightarrow> string list list \<Rightarrow>
   error + dataframe" where
  "read_csv_header5 build lines =
     (if lines = [] then Inl EmptyDataError
      else
        (case drop 5 lines of
           [] \<Rightarrow> Inl ParserError
         | header # data \<Rightarrow> build header data))"

text \<open>\<^verbatim>\<open>astype(str)\<close> on one cell; on a missing value the versions of pandas before 3
  give the text \<^verbatim>\<open>nan\<close>.\<close>

fun astype_str :: "cell \<Rightarrow> string" where
  "astype_str NaN = ''nan''"
| "astype_str (CInt n) = str_int n"
| "astype_str (CStr s) = s"
| "astype_str (COther s) = s"

text \<open>\<^verbatim>\<open>.astype(str).str.zfill(5)\<close> on the code of one row.\<close>

definition normalise_CODGEO :: "(string \<Rightarrow> cell) \<Rightarrow> (string \<Rightarrow> cell)" where
  "normalise_CODGEO row = row(''CODGEO'' := CStr (zfill 5 (astype_str (row ''CODGEO''))))"

text \<open>
  From pandas 3 on, \<^verbatim>\<open>astype(str)\<close> leaves a missing value missing, and so does
  \<^verbatim>\<open>str.zfill\<close>: \<open>keeps_na\<close> tells which of the two behaviours the installed pandas has.
\<close>

definition normalise_row :: "bool \<Rightarrow> (string \<Rightarrow> cell) \<Rightarrow> (string \<Rightarrow> cell)" where
  "normalise_row keeps_na row =
     (if keeps_na \<and> row ''CODGEO'' = NaN then row else normalise_CODGEO row)"

text \<open>
  The \<^verbatim>\<open>.str\<close> accessor is for columns of dtype object only, and raises AttributeError on
  any other. A column has dtype object, as \<^verbatim>\<open>read_csv\<close> types it, when it holds a text or
  when the frame has no row; a column with rows and no text is numeric (all missing, it is
  a column of floats).
\<close>

fun is_text :: "cell \<Rightarrow> bool" where
  "is_text (CStr s) = True"
| "is_text _ = False"

definition is_object :: "cell list \<Rightarrow> bool" where
  "is_object cells = (cells = [] \<or> filter is_text cells \<noteq> [])"

text \<open>\<^verbatim>\<open>startswith(("C", "P"), na=False)\<close> on one cell of a column of dtype object: a
  missing value gives False, and so does a cell that is not a text.\<close>

fun starts_C_P :: "cell \<Rightarrow> bool" where
  "starts_C_P (CStr (c # s)) = (c = CHR ''C'' \<or> c = CHR ''P'')"
| "starts_C_P _ = False"

text \<open>\<^verbatim>\<open>.str.startswith(("C", "P"), na=False)\<close> on a column: the mask of its rows.\<close>

definition startswith_C_P :: "cell list \<Rightarrow> error + bool list" where
  "startswith_C_P cells =
     (if is_object cells then Inr (map starts_C_P cells) else Inl AttributeError)"

text \<open>\<^verbatim>\<open>df.loc[mask, col].tolist()\<close>: the cells of the column at the rows the mask keeps.\<close>

definition loc_mask :: "bool list \<Rightarrow> cell list \<Rightarrow> cell list" where
  "loc_mask keep cells = map fst (filter snd (zip cells keep))"

definition load_zrr_data ::
  "bool \<Rightarrow> (string list \<Rightarrow> string list list \<Rightarrow> error + dataframe) \<Rightarrow>
   (string \<Rightarrow> string list list option) \<Rightarrow> string \<Rightarrow> error + (dataframe \<times> cell set)" where
  "load_zrr_data keeps_na build fs path =
     (case fs path of
        None \<Rightarrow> Inr (DataFrame_empty, {})
      | Some lines \<Rightarrow>
          (case read_csv_header5 build lines of
             Inl e \<Rightarrow> Inl e
           | Inr df \<Rightarrow>
               if ''CODGEO'' \<notin> set (df_columns df) then Inl KeyError
               else
                 let df_zrr = df\<lparr>df_rows := map (normalise_row keeps_na) (df_rows df)\<rparr> in
                   if ''ZRR_SIMP'' \<notin> set (df_columns df_zrr) then Inl KeyError
                   else
                     (case startswith_C_P (column df_zrr ''ZRR_SIMP'') of
                        Inl e \<Rightarrow> Inl e
                      | Inr keep \<Rightarrow>
                          Inr (df_zrr, set (loc_mask keep (column df_zrr ''CODGEO''))))))"

section \<open>ZRR membership of a municipality\<close>

text \<open>
  The municipality code as a caller may pass it: None, a text (the declared type), or a
  number. \<^verbatim>\<open>not code_commune\<close> is Python's truth test, \<^verbatim>\<open>str\<close> its conversion to text.
\<close>

datatype code_input = PyNone | PyStr string | PyInt int

fun truthy :: "code_input \<Rightarrow> bool" where
  "truthy PyNone = False"
| "truthy (PyStr s) = (s \<noteq> [])"
| "truthy (PyInt n) = (n \<noteq> 0)"

fun py_str :: "code_input \<Rightarrow> string" where
  "py_str PyNone = ''None''"
| "py_str (PyStr s) = s"
| "py_str (PyInt n) = str_int n"

definition check_zrr_statut ::
  "code_input \<Rightarrow> dataframe \<Rightarrow> cell set \<Rightarrow> error + (bool option \<times> cell option)" where
  "check_zrr_statut code_commune df_zrr communes_zrr =
     (if \<not> truthy code_commune then Inr (None, None)
      else
        let code = zfill 5 (py_str code_commune);
            is_zrr = (CStr code \<in> communes_zrr)
        in
          if is_zrr then
            (if ''CODGEO'' \<notin> set (df_columns df_zrr) then Inl KeyError
             else
               (case filter (\<lambda>row. row ''CODGEO'' = CStr code) (df_rows df_zrr) of
                  [] \<Rightarrow> Inr (Some is_zrr, None)
                | row # _ \<Rightarrow>
                    Inr (Some is_zrr,
                         if ZRR_LIB_COL \<in> set (df_columns df_zrr) then Some (row ZRR_LIB_COL)
                         else None)))
          else Inr (Some is_zrr, None))"

section \<open>Rectangles: an instance of the geometry interface\<close>

text \<open>
  To run the model on concrete inputs the geometry parameters are instantiated with
  rectangles whose sides are parallel to the axes, given by two opposite corners
  \<open>(x0, y0)\<close> and \<open>(x1, y1)\<close> in planar metres. On such a polygon shapely's \<^verbatim>\<open>contains\<close>
  holds for the points of the interior and \<^verbatim>\<open>distance\<close> is the Euclidean distance to the
  closed rectangle. Points are already planar, so reprojection leaves them as they are.
\<close>

datatype box = Box real real real real

fun box_contains :: "box \<Rightarrow> real \<times> real \<Rightarrow> bool" where
  "box_contains (Box x0 y0 x1 y1) (x, y) = (x0 < x \<and> x < x1 \<and> y0 < y \<and> y < y1)"

definition gap :: "real \<Rightarrow> real \<Rightarrow> real \<Rightarrow> real" where
  "gap lo hi v = max 0 (max (lo - v) (v - hi))"

fun box_distance :: "box \<Rightarrow> real \<times> real \<Rightarrow> real" where
  "box_distance (Box x0 y0 x1 y1) (x, y) = sqrt ((gap x0 x1 x)\<^sup>2 + (gap y0 y1 y)\<^sup>2)"

definition plane_to_crs :: "crs \<Rightarrow> crs \<Rightarrow> real \<times> real \<Rightarrow> real \<times> real" where
  "plane_to_crs src dst p = p"

section \<open>Notions of the specification\<close>

text \<open>
  The true minimum planar distance from a point to a polygon set, recomputed over all
  the polygons: the least element of the set of their distances.
\<close>

definition true_min_distance :: "('g \<Rightarrow> 'p \<Rightarrow> real) \<Rightarrow> 'p \<Rightarrow> 'g feature list \<Rightarrow> real" where
  "true_min_distance distance p rows = Min ((\<lambda>row. distance (geometry row) p) ` set rows)"

text \<open>
  A point lies outside a polygon when it is neither in its interior (\<open>contains\<close>) nor on
  its boundary (at distance zero of it): it is at a positive distance and not contained.
\<close>

definition outside :: "('g \<Rightarrow> 'p \<Rightarrow> bool) \<Rightarrow> ('g \<Rightarrow> 'p \<Rightarrow> real) \<Rightarrow> 'g \<Rightarrow> 'p \<Rightarrow> bool" where
  "outside contains distance g p = (\<not> contains g p \<and> 0 < distance g p)"

text \<open>
  What the computation expects of the geometry library on the polygons and the point at
  hand: a distance is never negative, and a point a polygon contains is at distance zero
  of it.
\<close>

definition consistent_geometry ::
  "('g \<Rightarrow> 'p \<Rightarrow> bool) \<Rightarrow> ('g \<Rightarrow> 'p \<Rightarrow> real) \<Rightarrow> 'g feature list \<Rightarrow> 'p \<Rightarrow> bool" where
  "consistent_geometry contains distance rows p =
     (\<forall>row \<in> set rows.
        0 \<le> distance (geometry row) p \<and>
        (contains (geometry row) p \<longrightarrow> distance (geometry row) p = 0))"

section \<open>Example data\<close>

text \<open>
  Two overlapping rectangles in Lambert-93 (EPSG:2154), the first one the square of the
  end-to-end scenarios, and a third square two kilometres to the north.
\<close>

definition qpv_attrs :: "string \<Rightarrow> string \<Rightarrow> string \<Rightarrow> string \<Rightarrow> cell" where
  "qpv_attrs code lib com =
     row_of [''code_qp'', ''lib_qp'', ''lib_com''] [CStr code, CStr lib, CStr com]"

definition example_qpv :: "box geodataframe" where
  "example_qpv =
     \<lparr>gdf_crs = Some (EPSG 2154),
      gdf_columns = [''code_qp'', ''lib_qp'', ''lib_com''],
      gdf_rows =
        [\<lparr>geometry = Box 0 0 10 10, attrs = qpv_attrs ''QP1'' ''Centre'' ''Commune A''\<rparr>,
         \<lparr>geometry = Box 0 5 10 20, attrs = qpv_attrs ''QP2'' ''Gare'' ''Commune A''\<rparr>,
         \<lparr>geometry = Box 0 2020 10 2030, attrs = qpv_attrs ''QP3'' ''Nord'' ''Commune B''\<rparr>]\<rparr>"

text \<open>The same polygons as a file declares them without a CRS, and in WGS84.\<close>

definition example_qpv_no_crs :: "box geodataframe" where
  "example_qpv_no_crs = example_qpv\<lparr>gdf_crs := None\<rparr>"

definition example_qpv_wgs84 :: "box geodataframe" where
  "example_qpv_wgs84 = example_qpv\<lparr>gdf_crs := Some (EPSG 4326)\<rparr>"

text \<open>A reprojection of rectangles for the examples: a shift by one metre to the east.\<close>

fun shift_box :: "crs \<Rightarrow> crs \<Rightarrow> box \<Rightarrow> box" where
  "shift_box src dst (Box x0 y0 x1 y1) = Box (x0 + 1) y0 (x1 + 1) y1"

text \<open>Three polygon files: in WGS84, in Lambert-93 and without a CRS.\<close>

definition example_qpv_fs :: "string \<Rightarrow> box geodataframe option" where
  "example_qpv_fs path =
     (if path = QPV_GEO_PATH then Some example_qpv_wgs84
      else if path = ''lambert93.gpkg'' then Some example_qpv
      else if path = ''no_crs.gpkg'' then Some example_qpv_no_crs
      else None)"

text \<open>
  A ZRR listing: five records of preamble, the record of column names, four
  municipalities (the classification of the third is missing), and the frame pandas
  builds from these names and records: the codes are all numbers, so the column is one of
  integers. A second listing has no classification at all: its column is one of floats,
  all missing.
\<close>

definition example_header :: "string list" where
  "example_header = [''CODGEO'', ''LIBGEO'', ''ZRR_SIMP'']"

definition example_data :: "string list list" where
  "example_data =
     [[''1234'', ''Commune A'', ''C - Classee''],
      [''75056'', ''Paris'', ''NC - Non classee''],
      [''12001'', ''Agen'', []],
      [''48095'', ''Mende'', ''P - Partiellement classee'']]"

definition example_csv :: "string list list" where
  "example_csv =
     [[''Zonage''], [''Source''], [''Date''], [''Champ''], [''Note'']]
     @ example_header # example_data"

definition example_parsed :: dataframe where
  "example_parsed =
     \<lparr>df_columns = example_header,
      df_rows =
        [row_of example_header [CInt 1234, CStr ''Commune A'', CStr ''C - Classee''],
         row_of example_header [CInt 75056, CStr ''Paris'', CStr ''NC - Non classee''],
         row_of example_header [CInt 12001, CStr ''Agen'', NaN],
         row_of example_header [CInt 48095, CStr ''Mende'', CStr ''P - Partiellement classee'']]\<rparr>"

definition example_data_unclassified :: "string list list" where
  "example_data_unclassified = [[''1234'', ''Commune A'', []], [''75056'', ''Paris'', []]]"

definition example_csv_unclassified :: "string list list" where
  "example_csv_unclassified =
     [[''Zonage''], [''Source''], [''Date''], [''Champ''], [''Note'']]
     @ example_header # example_data_unclassified"

definition example_parsed_unclassified :: dataframe where
  "example_parsed_unclassified =
     \<lparr>df_columns = example_header,
      df_rows =
        [row_of example_header [CInt 1234, CStr ''Commune A'', NaN],
         row_of example_header [CInt 75056, CStr ''Paris'', NaN]]\<rparr>"

definition example_build :: "string list \<Rightarrow> string list list \<Rightarrow> error + dataframe" where
  "example_build header data =
     (if header = example_header \<and> data = example_data then Inr example_parsed
      else if header = example_header \<and> data = example_data_unclassified
      then Inr example_parsed_unclassified
      else Inl ParserError)"

definition example_fs :: "string \<Rightarrow> string list list option" where
  "example_fs path =
     (if path = ZRR_CSV_PATH then Some example_csv
      else if path = ''unclassified.csv'' then Some example_csv_unclassified
      else None)"

definition example_df :: dataframe where
  "example_df =
     \<lparr>df_columns = [''CODGEO'', ''LIBGEO'', ''ZRR_SIMP''],
      df_rows =
        [row_of [''CODGEO'', ''LIBGEO'', ''ZRR_SIMP''] [CStr ''01234'', CStr ''Commune A'', CStr ''C''],
         row_of [''CODGEO'', ''LIBGEO'', ''ZRR_SIMP''] [CStr ''01234'', CStr ''Doublon'', CStr ''C'']]\<rparr>"

section \<open>Properties of the reductions\<close>

lemma series_min_Min: "ds \<noteq> [] \<Longrightarrow> series_min ds = Some (Min (set ds))"
  by (cases ds) (simp_all add: Min.set_eq_fold del: set_simps)

lemma idxmin_Some: "ds \<noteq> [] \<Longrightarrow> \<exists>i. idxmin ds = Some i"
  by (cases ds) (auto split: option.splits)

text \<open>\<open>idxmin\<close> returns the first position at which the series takes its least value.\<close>

lemma idxmin_least:
  "idxmin ds = Some i \<Longrightarrow> i < length ds \<and> ds ! i = Min (set ds) \<and> (\<forall>j<i. ds ! i < ds ! j)"
proof (induction ds arbitrary: i)
  case Nil
  then show ?case by simp
next
  case (Cons d ds)
  show ?case
  proof (cases "idxmin ds")
    case None
    then have "ds = []" by (cases ds) (auto split: option.splits if_splits)
    with Cons.prems show ?thesis by simp
  next
    case (Some k)
    then have ds: "ds \<noteq> []" by auto
    from Cons.IH [OF Some] have k: "k < length ds" "ds ! k = Min (set ds)" "\<forall>j<k. ds ! k < ds ! j"
      by auto
    have M: "Min (set (d # ds)) = min d (Min (set ds))"
      using ds by (simp add: Min_insert)
    show ?thesis
    proof (cases "d \<le> ds ! k")
      case True
      with Some Cons.prems have "i = 0" by simp
      with True k M show ?thesis by (simp add: min_def)
    next
      case False
      with Some Cons.prems have i: "i = Suc k" by simp
      have "\<forall>j<Suc k. (d # ds) ! Suc k < (d # ds) ! j"
      proof (intro allI impI)
        fix j assume "j < Suc k"
        then show "(d # ds) ! Suc k < (d # ds) ! j"
          using False k(3) by (cases j) auto
      qed
      with False k M i show ?thesis by (simp add: min_def)
    qed
  qed
qed

section \<open>The value of the proximity computation\<close>

lemma calcul_proximite_qpv_None [simp]:
  "calcul_proximite_qpv to_crs contains distance None gdf = Inr None"
  by (simp add: calcul_proximite_qpv_def)

lemma calcul_proximite_qpv_empty:
  "gdf_empty gdf \<Longrightarrow> calcul_proximite_qpv to_crs contains distance pt gdf = Inr None"
  by (simp add: calcul_proximite_qpv_def split: option.splits)

lemma calcul_proximite_qpv_no_crs:
  "gdf_crs gdf = None \<Longrightarrow> \<not> gdf_empty gdf \<Longrightarrow>
   calcul_proximite_qpv to_crs contains distance (Some pt) gdf = Inl ValueError"
  by (simp add: calcul_proximite_qpv_def)

text \<open>
  On a point and a polygon set that has rows and a CRS the computation returns a record,
  whose fields are as follows; \<open>i\<close> is the row \<^verbatim>\<open>idxmin\<close> selects.
\<close>

lemma calcul_proximite_qpv_value:
  assumes crs: "gdf_crs gdf = Some c" and rows: "gdf_rows gdf \<noteq> []"
  shows "\<exists>i. idxmin (map (\<lambda>row. distance (geometry row) (to_crs (EPSG 4326) c pt)) (gdf_rows gdf)) = Some i
          \<and> i < length (gdf_rows gdf)
          \<and> distance (geometry (gdf_rows gdf ! i)) (to_crs (EPSG 4326) c pt)
              = true_min_distance distance (to_crs (EPSG 4326) c pt) (gdf_rows gdf)
          \<and> calcul_proximite_qpv to_crs contains distance (Some pt) gdf =
             Inr (Some
               \<lparr>est_dans_qpv =
                  (filter (\<lambda>row. contains (geometry row) (to_crs (EPSG 4326) c pt)) (gdf_rows gdf) \<noteq> []),
                distance_km = true_min_distance distance (to_crs (EPSG 4326) c pt) (gdf_rows gdf) / 1000,
                a_moins_1km_qpv =
                  (true_min_distance distance (to_crs (EPSG 4326) c pt) (gdf_rows gdf) / 1000 \<le> 1),
                qpv_dans_lesquels =
                  map (ident_of (gdf_columns gdf))
                    (filter (\<lambda>row. contains (geometry row) (to_crs (EPSG 4326) c pt)) (gdf_rows gdf)),
                qpv_plus_proche =
                  \<lparr>code_qp = row_get (gdf_columns gdf) (gdf_rows gdf ! i) COL_CODE_QP,
                   lib_qp = row_get (gdf_columns gdf) (gdf_rows gdf ! i) COL_LIB_QP,
                   commune_qp = row_get (gdf_columns gdf) (gdf_rows gdf ! i) COL_LIB_COM,
                   nearest_distance_km =
                     true_min_distance distance (to_crs (EPSG 4326) c pt) (gdf_rows gdf) / 1000\<rparr>\<rparr>)"
proof -
  let ?p = "to_crs (EPSG 4326) c pt"
  let ?ds = "map (\<lambda>row. distance (geometry row) ?p) (gdf_rows gdf)"
  have ne: "?ds \<noteq> []" using rows by simp
  obtain i where i: "idxmin ?ds = Some i" using idxmin_Some [OF ne] by blast
  have m: "series_min ?ds = Some (Min (set ?ds))" by (rule series_min_Min [OF ne])
  have t: "Min (set ?ds) = true_min_distance distance ?p (gdf_rows gdf)"
    by (simp add: true_min_distance_def)
  from idxmin_least [OF i] have il: "i < length (gdf_rows gdf)" and iv: "?ds ! i = Min (set ?ds)"
    by simp_all
  from il iv have d: "distance (geometry (gdf_rows gdf ! i)) ?p = Min (set ?ds)" by simp
  have "calcul_proximite_qpv to_crs contains distance (Some pt) gdf = Inr (Some
               \<lparr>est_dans_qpv = (filter (\<lambda>row. contains (geometry row) ?p) (gdf_rows gdf) \<noteq> []),
                distance_km = Min (set ?ds) / 1000,
                a_moins_1km_qpv = (Min (set ?ds) / 1000 \<le> 1),
                qpv_dans_lesquels =
                  map (ident_of (gdf_columns gdf))
                    (filter (\<lambda>row. contains (geometry row) ?p) (gdf_rows gdf)),
                qpv_plus_proche =
                  \<lparr>code_qp = row_get (gdf_columns gdf) (gdf_rows gdf ! i) COL_CODE_QP,
                   lib_qp = row_get (gdf_columns gdf) (gdf_rows gdf ! i) COL_LIB_QP,
                   commune_qp = row_get (gdf_columns gdf) (gdf_rows gdf ! i) COL_LIB_COM,
                   nearest_distance_km = Min (set ?ds) / 1000\<rparr>\<rparr>)"
    unfolding calcul_proximite_qpv_def using crs rows i m
    by (simp add: gdf_empty_def Let_def del: set_map)
  with i il d t show ?thesis by (simp del: set_map)
qed

lemma calcul_proximite_qpv_Some_cases:
  assumes "calcul_proximite_qpv to_crs contains distance pt gdf = Inr (Some r)"
  obtains p c where "pt = Some p" and "gdf_crs gdf = Some c" and "gdf_rows gdf \<noteq> []"
  using assms
  by (auto simp: calcul_proximite_qpv_def gdf_empty_def split: option.splits if_splits)

lemma true_min_distance_bounds:
  assumes "rows \<noteq> []"
  shows "\<exists>row \<in> set rows. true_min_distance distance p rows = distance (geometry row) p"
    and "\<forall>row \<in> set rows. true_min_distance distance p rows \<le> distance (geometry row) p"
proof -
  let ?D = "(\<lambda>row. distance (geometry row) p) ` set rows"
  have fin: "finite ?D" and ne: "?D \<noteq> {}" using assms by simp_all
  from Min_in [OF fin ne] show "\<exists>row \<in> set rows. true_min_distance distance p rows = distance (geometry row) p"
    by (auto simp: true_min_distance_def)
  show "\<forall>row \<in> set rows. true_min_distance distance p rows \<le> distance (geometry row) p"
    using fin by (auto simp: true_min_distance_def)
qed

section \<open>Rectangles satisfy the geometry interface\<close>

lemma gap_nonneg: "0 \<le> gap lo hi v"
  by (simp add: gap_def)

lemma gap_zero_iff: "gap lo hi v = 0 \<longleftrightarrow> lo \<le> v \<and> v \<le> hi"
  by (auto simp: gap_def max_def)

lemma box_distance_nonneg: "0 \<le> box_distance b p"
  by (cases b; cases p) simp

lemma box_distance_zero_iff:
  "box_distance (Box x0 y0 x1 y1) (x, y) = 0 \<longleftrightarrow> x0 \<le> x \<and> x \<le> x1 \<and> y0 \<le> y \<and> y \<le> y1"
proof -
  have "box_distance (Box x0 y0 x1 y1) (x, y) = 0 \<longleftrightarrow> gap x0 x1 x = 0 \<and> gap y0 y1 y = 0"
    by (simp add: sum_power2_eq_zero_iff)
  then show ?thesis by (auto simp: gap_zero_iff)
qed

lemma box_contains_distance: "box_contains b p \<Longrightarrow> box_distance b p = 0"
proof (cases b; cases p)
  fix x0 y0 x1 y1 x y
  assume "box_contains b p" and b: "b = Box x0 y0 x1 y1" and p: "p = (x, y)"
  then have "x0 \<le> x \<and> x \<le> x1 \<and> y0 \<le> y \<and> y \<le> y1" by simp
  then show "box_distance b p = 0" unfolding b p by (simp only: box_distance_zero_iff)
qed

lemma box_consistent_geometry: "consistent_geometry box_contains box_distance rows p"
  by (simp add: consistent_geometry_def box_distance_nonneg box_contains_distance)

text \<open>A point in line with a rectangle is at the distance of the gap on the other axis.\<close>

lemma box_distance_aligned_x:
  "x0 \<le> x \<Longrightarrow> x \<le> x1 \<Longrightarrow> box_distance (Box x0 y0 x1 y1) (x, y) = gap y0 y1 y"
proof -
  assume "x0 \<le> x" "x \<le> x1"
  then have "gap x0 x1 x = 0" by (simp add: gap_zero_iff)
  then show ?thesis using gap_nonneg [of y0 y1 y] by simp
qed

text \<open>For rectangles, being outside means not lying in the closed rectangle; a point of
  the boundary is neither contained nor outside.\<close>

lemma box_outside_iff:
  "outside box_contains box_distance (Box x0 y0 x1 y1) (x, y)
     \<longleftrightarrow> \<not> (x0 \<le> x \<and> x \<le> x1 \<and> y0 \<le> y \<and> y \<le> y1)"
proof -
  have "0 < box_distance (Box x0 y0 x1 y1) (x, y) \<longleftrightarrow> box_distance (Box x0 y0 x1 y1) (x, y) \<noteq> 0"
    using box_distance_nonneg [of "Box x0 y0 x1 y1" "(x, y)"] by linarith
  then show ?thesis
    unfolding outside_def by (auto simp only: box_distance_zero_iff box_contains.simps)
qed

lemma box_boundary_point:
  "\<not> box_contains (Box 0 0 10 10) (0, 5) \<and> box_distance (Box 0 0 10 10) (0, 5) = 0"
  by (simp add: box_distance_zero_iff del: box_distance.simps)

section \<open>Properties of the code normalisation\<close>


lemma zfill_unsigned:
  "s \<noteq> [] \<Longrightarrow> hd s \<noteq> CHR ''+'' \<Longrightarrow> hd s \<noteq> CHR ''-'' \<Longrightarrow>
   zfill width s = replicate (width - length s) CHR ''0'' @ s"
  by (cases s) (auto simp: zfill_def)

lemma str_int_1234: "str_int 1234 = ''1234''"
  by (simp add: str_int_def digits.simps digit_char_def)

lemma zfill_1234: "zfill 5 ''1234'' = ''01234''"
  by (simp add: zfill_def)

lemma zfill_01234: "zfill 5 ''01234'' = ''01234''"
  by (simp add: zfill_def)

lemma filter_first_find:
  "(case filter P xs of [] \<Rightarrow> a | x # rest \<Rightarrow> f x)
     = (case List.find P xs of None \<Rightarrow> a | Some x \<Rightarrow> f x)"
  by (induction xs) simp_all

section \<open>The value of the membership check\<close>

lemma check_zrr_statut_falsy:
  "\<not> truthy code \<Longrightarrow> check_zrr_statut code df cs = Inr (None, None)"
  by (simp add: check_zrr_statut_def)

lemma check_zrr_statut_absent:
  "truthy code \<Longrightarrow> CStr (zfill 5 (py_str code)) \<notin> cs \<Longrightarrow>
   check_zrr_statut code df cs = Inr (Some False, None)"
  by (simp add: check_zrr_statut_def)

lemma check_zrr_statut_member:
  "truthy code \<Longrightarrow> CStr (zfill 5 (py_str code)) \<in> cs \<Longrightarrow> ''CODGEO'' \<in> set (df_columns df) \<Longrightarrow>
   check_zrr_statut code df cs =
     Inr (Some True,
          case List.find (\<lambda>row. row ''CODGEO'' = CStr (zfill 5 (py_str code))) (df_rows df) of
            None \<Rightarrow> None
          | Some row \<Rightarrow> if ZRR_LIB_COL \<in> set (df_columns df) then Some (row ZRR_LIB_COL) else None)"
proof -
  assume t: "truthy code" and m: "CStr (zfill 5 (py_str code)) \<in> cs"
    and c: "''CODGEO'' \<in> set (df_columns df)"
  let ?P = "\<lambda>row. row ''CODGEO'' = CStr (zfill 5 (py_str code))"
  let ?f = "\<lambda>row. if ZRR_LIB_COL \<in> set (df_columns df) then Some (row ZRR_LIB_COL) else None"
  have "check_zrr_statut code df cs =
          (case filter ?P (df_rows df) of
             [] \<Rightarrow> Inr (Some True, None)
           | row # rest \<Rightarrow> Inr (Some True, ?f row))"
    using t m c by (simp add: check_zrr_statut_def Let_def split: list.splits)
  also have "\<dots> = Inr (Some True, case filter ?P (df_rows df) of [] \<Rightarrow> None | row # rest \<Rightarrow> ?f row)"
    by (simp split: list.splits)
  also have "(case filter ?P (df_rows df) of [] \<Rightarrow> None | row # rest \<Rightarrow> ?f row)
              = (case List.find ?P (df_rows df) of None \<Rightarrow> None | Some row \<Rightarrow> ?f row)"
    by (rule filter_first_find)
  finally show ?thesis .
qed

lemma check_zrr_statut_no_column:
  "truthy code \<Longrightarrow> CStr (zfill 5 (py_str code)) \<in> cs \<Longrightarrow> ''CODGEO'' \<notin> set (df_columns df) \<Longrightarrow>
   check_zrr_statut code df cs = Inl KeyError"
  by (simp add: check_zrr_statut_def)

text \<open>The result depends on the code only through its truth value and its normal form.\<close>

lemma check_zrr_statut_cong:
  "truthy a = truthy b \<Longrightarrow> zfill 5 (py_str a) = zfill 5 (py_str b) \<Longrightarrow>
   check_zrr_statut a df cs = check_zrr_statut b df cs"
  by (simp add: check_zrr_statut_def)

section \<open>The value of the loaders\<close>








lemma read_csv_header5_value:
  "drop 5 lines = header # data \<Longrightarrow> read_csv_header5 build lines = build header data"
  by (auto simp: read_csv_header5_def)





lemma load_qpv_polygones_planar:
  "load_qpv_polygones to_crs_geom fs path = Inr out \<Longrightarrow> \<not> gdf_empty out \<Longrightarrow>
   \<exists>c. gdf_crs out = Some c \<and> to_epsg c = Some 2154"
  by (auto simp: load_qpv_polygones_def gdf_to_crs_def gdf_empty_def GeoDataFrame_empty_def
           split: option.splits if_splits)

section \<open>The computation on the example polygons\<close>

lemmas example_simps =
  calcul_proximite_qpv_def example_qpv_def gdf_empty_def plane_to_crs_def Let_def
  box_distance_aligned_x gap_def row_get_def ident_of_def qpv_attrs_def row_of_def
  COL_CODE_QP_def COL_LIB_QP_def COL_LIB_COM_def

lemma example_inside:
  "calcul_proximite_qpv plane_to_crs box_contains box_distance (Some (5, 7)) example_qpv =
     Inr (Some
       \<lparr>est_dans_qpv = True, distance_km = 0, a_moins_1km_qpv = True,
        qpv_dans_lesquels =
          [\<lparr>code_qp = Some (CStr ''QP1''), lib_qp = Some (CStr ''Centre''),
            commune_qp = Some (CStr ''Commune A'')\<rparr>,
           \<lparr>code_qp = Some (CStr ''QP2''), lib_qp = Some (CStr ''Gare''),
            commune_qp = Some (CStr ''Commune A'')\<rparr>],
        qpv_plus_proche =
          \<lparr>code_qp = Some (CStr ''QP1''), lib_qp = Some (CStr ''Centre''),
           commune_qp = Some (CStr ''Commune A''), nearest_distance_km = 0\<rparr>\<rparr>)"
  by (simp add: example_simps del: box_distance.simps)

lemma example_one_km:
  "calcul_proximite_qpv plane_to_crs box_contains box_distance (Some (5, 1020)) example_qpv =
     Inr (Some
       \<lparr>est_dans_qpv = False, distance_km = 1, a_moins_1km_qpv = True,
        qpv_dans_lesquels = [],
        qpv_plus_proche =
          \<lparr>code_qp = Some (CStr ''QP2''), lib_qp = Some (CStr ''Gare''),
           commune_qp = Some (CStr ''Commune A''), nearest_distance_km = 1\<rparr>\<rparr>)"
  by (simp add: example_simps del: box_distance.simps)

lemma example_far:
  "calcul_proximite_qpv plane_to_crs box_contains box_distance (Some (5, 5000)) example_qpv =
     Inr (Some
       \<lparr>est_dans_qpv = False, distance_km = 297 / 100, a_moins_1km_qpv = False,
        qpv_dans_lesquels = [],
        qpv_plus_proche =
          \<lparr>code_qp = Some (CStr ''QP3''), lib_qp = Some (CStr ''Nord''),
           commune_qp = Some (CStr ''Commune B''), nearest_distance_km = 297 / 100\<rparr>\<rparr>)"
  by (simp add: example_simps del: box_distance.simps)

lemma example_boundary:
  "calcul_proximite_qpv plane_to_crs box_contains box_distance (Some (5, 20)) example_qpv =
     Inr (Some
       \<lparr>est_dans_qpv = False, distance_km = 0, a_moins_1km_qpv = True,
        qpv_dans_lesquels = [],
        qpv_plus_proche =
          \<lparr>code_qp = Some (CStr ''QP2''), lib_qp = Some (CStr ''Gare''),
           commune_qp = Some (CStr ''Commune A''), nearest_distance_km = 0\<rparr>\<rparr>)"
  by (simp add: example_simps del: box_distance.simps)

section \<open>The loaders on the example files\<close>


lemma example_csv_unclassified_lines:
  "drop 5 example_csv_unclassified = example_header # example_data_unclassified"
  by (simp add: example_csv_unclassified_def)


lemma example_build_unclassified:
  "example_build example_header example_data_unclassified = Inr example_parsed_unclassified"
  by (simp add: example_build_def example_data_def example_data_unclassified_def)


lemma example_read_csv_unclassified:
  "read_csv_header5 example_build example_csv_unclassified = Inr example_parsed_unclassified"
  by (simp add: read_csv_header5_value [OF example_csv_unclassified_lines]
        example_build_unclassified)


lemma example_load_zrr_unclassified:
  "load_zrr_data keeps_na example_build example_fs ''unclassified.csv'' = Inl AttributeError"
  unfolding load_zrr_data_def
  apply (simp add: example_fs_def ZRR_CSV_PATH_def example_read_csv_unclassified)
  apply (simp add: example_parsed_unclassified_def example_header_def startswith_C_P_def
        is_object_def column_def row_of_def normalise_row_def normalise_CODGEO_def Let_def)
  done

section \<open>Claims on the proximity computation\<close>

text \<open>
  Claim C1. \<^verbatim>\<open>calcul_proximite_qpv\<close> returns None exactly when its point is None or the
  polygon set is empty: a None point gives None whatever the polygon set, an empty
  polygon set gives None whatever the point, and a point with a non-empty polygon set
  gives a record. A polygon set has a CRS (\<^verbatim>\<open>load_qpv_polygones\<close> refuses a file that
  declares none); on rows without a CRS the reprojection raises ValueError, which is not
  None either.
\<close>

theorem calcul_proximite_qpv_None_iff:
  "calcul_proximite_qpv to_crs contains distance None gdf = Inr None
   \<and> (gdf_empty gdf \<longrightarrow> calcul_proximite_qpv to_crs contains distance pt gdf = Inr None)
   \<and> (gdf_crs gdf \<noteq> None \<longrightarrow> \<not> gdf_empty gdf \<longrightarrow>
        (\<exists>r. calcul_proximite_qpv to_crs contains distance (Some p) gdf = Inr (Some r)))
   \<and> (calcul_proximite_qpv to_crs contains distance pt gdf = Inr None
        \<longleftrightarrow> pt = None \<or> gdf_empty gdf)"
proof (intro conjI impI)
  show "calcul_proximite_qpv to_crs contains distance None gdf = Inr None" by simp
next
  assume "gdf_empty gdf"
  then show "calcul_proximite_qpv to_crs contains distance pt gdf = Inr None"
    by (rule calcul_proximite_qpv_empty)
next
  assume "gdf_crs gdf \<noteq> None" and "\<not> gdf_empty gdf"
  then obtain c where "gdf_crs gdf = Some c" and "gdf_rows gdf \<noteq> []"
    by (auto simp: gdf_empty_def)
  from calcul_proximite_qpv_value [OF this, of distance to_crs p contains]
  show "\<exists>r. calcul_proximite_qpv to_crs contains distance (Some p) gdf = Inr (Some r)"
    by blast
next
  show "calcul_proximite_qpv to_crs contains distance pt gdf = Inr None
        \<longleftrightarrow> pt = None \<or> gdf_empty gdf"
  proof
    assume null: "calcul_proximite_qpv to_crs contains distance pt gdf = Inr None"
    show "pt = None \<or> gdf_empty gdf"
    proof (rule ccontr)
      assume "\<not> (pt = None \<or> gdf_empty gdf)"
      then obtain q where q: "pt = Some q" and rows: "gdf_rows gdf \<noteq> []"
        by (auto simp: gdf_empty_def)
      show False
      proof (cases "gdf_crs gdf")
        case None
        with rows have "calcul_proximite_qpv to_crs contains distance (Some q) gdf = Inl ValueError"
          by (simp add: calcul_proximite_qpv_no_crs gdf_empty_def)
        with null q show False by simp
      next
        case (Some c)
        from calcul_proximite_qpv_value [OF Some rows, of distance to_crs q contains] null q
        show False by auto
      qed
    qed
  next
    assume "pt = None \<or> gdf_empty gdf"
    then show "calcul_proximite_qpv to_crs contains distance pt gdf = Inr None"
      by (auto simp: calcul_proximite_qpv_empty)
  qed
qed

theorem calcul_proximite_qpv_None_iff_witness:
  "calcul_proximite_qpv plane_to_crs box_contains box_distance None example_qpv = Inr None
   \<and> gdf_empty (GeoDataFrame_empty :: box geodataframe)
   \<and> calcul_proximite_qpv plane_to_crs box_contains box_distance (Some (5, 7))
        GeoDataFrame_empty = Inr None
   \<and> gdf_crs example_qpv \<noteq> None \<and> \<not> gdf_empty example_qpv
   \<and> (\<exists>r. calcul_proximite_qpv plane_to_crs box_contains box_distance (Some (5, 7))
         example_qpv = Inr (Some r))"
  using calcul_proximite_qpv_None_iff
      [of plane_to_crs box_contains box_distance example_qpv "Some (5, 7)" "(5, 7)"]
    calcul_proximite_qpv_None_iff
      [of plane_to_crs box_contains box_distance "GeoDataFrame_empty" "Some (5, 7)" "(5, 7)"]
  by (simp add: example_qpv_def gdf_empty_def GeoDataFrame_empty_def)

text \<open>
  Claim C2. For every point and every non-empty polygon set, the flag
  \<^verbatim>\<open>a_moins_1km_qpv\<close> of the record returned is true if and only if its
  \<^verbatim>\<open>distance_km\<close> is at most 1; the bound is inclusive (the witness is a point at
  exactly one kilometre).
\<close>

theorem a_moins_1km_qpv_iff:
  "gdf_crs gdf \<noteq> None \<Longrightarrow> \<not> gdf_empty gdf \<Longrightarrow>
   \<exists>r. calcul_proximite_qpv to_crs contains distance (Some p) gdf = Inr (Some r)
       \<and> (a_moins_1km_qpv r \<longleftrightarrow> distance_km r \<le> 1)
       \<and> (distance_km r = 1 \<longrightarrow> a_moins_1km_qpv r)"
proof -
  assume "gdf_crs gdf \<noteq> None" and "\<not> gdf_empty gdf"
  then obtain c where "gdf_crs gdf = Some c" and "gdf_rows gdf \<noteq> []"
    by (auto simp: gdf_empty_def)
  from calcul_proximite_qpv_value [OF this, of distance to_crs p contains]
  obtain i r where r: "calcul_proximite_qpv to_crs contains distance (Some p) gdf = Inr (Some r)"
    and km: "distance_km r = true_min_distance distance (to_crs (EPSG 4326) c p) (gdf_rows gdf) / 1000"
    and fl: "a_moins_1km_qpv r
             = (true_min_distance distance (to_crs (EPSG 4326) c p) (gdf_rows gdf) / 1000 \<le> 1)"
    by force
  have "a_moins_1km_qpv r \<longleftrightarrow> distance_km r \<le> 1" by (simp only: km fl)
  with r show ?thesis by auto
qed

theorem a_moins_1km_qpv_iff_witness:
  "gdf_crs example_qpv \<noteq> None \<and> \<not> gdf_empty example_qpv
   \<and> (\<exists>r. calcul_proximite_qpv plane_to_crs box_contains box_distance (Some (5, 1020))
          example_qpv = Inr (Some r)
        \<and> distance_km r = 1 \<and> a_moins_1km_qpv r)"
proof -
  have h: "gdf_crs example_qpv \<noteq> None" "\<not> gdf_empty example_qpv"
    by (simp_all add: example_qpv_def gdf_empty_def)
  from a_moins_1km_qpv_iff [OF h, of plane_to_crs box_contains box_distance "(5, 1020)"]
  obtain r where r: "calcul_proximite_qpv plane_to_crs box_contains box_distance (Some (5, 1020))
          example_qpv = Inr (Some r)" and b: "distance_km r = 1 \<longrightarrow> a_moins_1km_qpv r"
    by blast
  from r have "distance_km r = 1" by (auto simp: example_one_km)
  with r b h show ?thesis by blast
qed

text \<open>
  Claim C3. For every point and every non-empty polygon set, \<^verbatim>\<open>est_dans_qpv\<close> is true
  if and only if some polygon of the set contains the reprojected point, and
  \<^verbatim>\<open>qpv_dans_lesquels\<close> lists all the containing polygons, in the order of the set, each
  as its code, label and municipality.
\<close>

theorem est_dans_qpv_iff:
  "gdf_crs gdf = Some c \<Longrightarrow> \<not> gdf_empty gdf \<Longrightarrow>
   \<exists>r. calcul_proximite_qpv to_crs contains distance (Some p) gdf = Inr (Some r)
       \<and> (est_dans_qpv r \<longleftrightarrow>
            (\<exists>row \<in> set (gdf_rows gdf). contains (geometry row) (to_crs (EPSG 4326) c p)))
       \<and> qpv_dans_lesquels r =
            map (\<lambda>row. \<lparr>code_qp = row_get (gdf_columns gdf) row COL_CODE_QP,
                         lib_qp = row_get (gdf_columns gdf) row COL_LIB_QP,
                         commune_qp = row_get (gdf_columns gdf) row COL_LIB_COM\<rparr>)
              (filter (\<lambda>row. contains (geometry row) (to_crs (EPSG 4326) c p)) (gdf_rows gdf))"
proof -
  assume "gdf_crs gdf = Some c" and "\<not> gdf_empty gdf"
  then have "gdf_crs gdf = Some c" and "gdf_rows gdf \<noteq> []"
    by (auto simp: gdf_empty_def)
  from calcul_proximite_qpv_value [OF this, of distance to_crs p contains]
  obtain r where r: "calcul_proximite_qpv to_crs contains distance (Some p) gdf = Inr (Some r)"
    and e: "est_dans_qpv r
            = (filter (\<lambda>row. contains (geometry row) (to_crs (EPSG 4326) c p)) (gdf_rows gdf) \<noteq> [])"
    and l: "qpv_dans_lesquels r
            = map (ident_of (gdf_columns gdf))
                (filter (\<lambda>row. contains (geometry row) (to_crs (EPSG 4326) c p)) (gdf_rows gdf))"
    by force
  have "est_dans_qpv r \<longleftrightarrow>
          (\<exists>row \<in> set (gdf_rows gdf). contains (geometry row) (to_crs (EPSG 4326) c p))"
    unfolding e by (simp add: filter_empty_conv)
  moreover have "qpv_dans_lesquels r =
            map (\<lambda>row. \<lparr>code_qp = row_get (gdf_columns gdf) row COL_CODE_QP,
                         lib_qp = row_get (gdf_columns gdf) row COL_LIB_QP,
                         commune_qp = row_get (gdf_columns gdf) row COL_LIB_COM\<rparr>)
              (filter (\<lambda>row. contains (geometry row) (to_crs (EPSG 4326) c p)) (gdf_rows gdf))"
    unfolding l by (rule map_cong) (simp_all add: ident_of_def)
  ultimately show ?thesis using r by blast
qed

theorem est_dans_qpv_iff_witness:
  "gdf_crs example_qpv = Some (EPSG 2154) \<and> \<not> gdf_empty example_qpv
   \<and> (\<exists>r. calcul_proximite_qpv plane_to_crs box_contains box_distance (Some (5, 7))
          example_qpv = Inr (Some r)
        \<and> est_dans_qpv r
        \<and> qpv_dans_lesquels r =
            [\<lparr>code_qp = Some (CStr ''QP1''), lib_qp = Some (CStr ''Centre''),
              commune_qp = Some (CStr ''Commune A'')\<rparr>,
             \<lparr>code_qp = Some (CStr ''QP2''), lib_qp = Some (CStr ''Gare''),
              commune_qp = Some (CStr ''Commune A'')\<rparr>])"
proof -
  have h: "gdf_crs example_qpv = Some (EPSG 2154)" "\<not> gdf_empty example_qpv"
    by (simp_all add: example_qpv_def gdf_empty_def)
  from est_dans_qpv_iff [OF h, of plane_to_crs box_contains box_distance "(5, 7)"]
  obtain r where r: "calcul_proximite_qpv plane_to_crs box_contains box_distance (Some (5, 7))
          example_qpv = Inr (Some r)"
    and e: "est_dans_qpv r \<longleftrightarrow>
            (\<exists>row \<in> set (gdf_rows example_qpv).
               box_contains (geometry row) (plane_to_crs (EPSG 4326) (EPSG 2154) (5, 7)))"
    by blast
  from e have "est_dans_qpv r" by (simp add: example_qpv_def plane_to_crs_def)
  moreover from r have "qpv_dans_lesquels r =
            [\<lparr>code_qp = Some (CStr ''QP1''), lib_qp = Some (CStr ''Centre''),
              commune_qp = Some (CStr ''Commune A'')\<rparr>,
             \<lparr>code_qp = Some (CStr ''QP2''), lib_qp = Some (CStr ''Gare''),
              commune_qp = Some (CStr ''Commune A'')\<rparr>]"
    by (auto simp: example_inside)
  ultimately show ?thesis using r h by blast
qed

text \<open>
  Claim C4. For every point and every non-empty polygon set, \<^verbatim>\<open>distance_km\<close> is the
  least of the planar distances from the reprojected point to the polygons, in metres,
  divided by 1000; \<^verbatim>\<open>qpv_plus_proche\<close> carries the code, label and municipality of a
  polygon at that least distance; and when the point is strictly inside a polygon
  (\<open>contains\<close> holds), \<^verbatim>\<open>est_dans_qpv\<close> is true and \<^verbatim>\<open>distance_km\<close> is 0, the
  library giving distance zero to a point a polygon contains.
\<close>

theorem distance_km_is_minimum:
  "gdf_crs gdf = Some c \<Longrightarrow> \<not> gdf_empty gdf \<Longrightarrow>
   \<exists>r. calcul_proximite_qpv to_crs contains distance (Some p) gdf = Inr (Some r)
       \<and> distance_km r
           = Min ((\<lambda>row. distance (geometry row) (to_crs (EPSG 4326) c p)) ` set (gdf_rows gdf)) / 1000
       \<and> (\<exists>row \<in> set (gdf_rows gdf).
             distance (geometry row) (to_crs (EPSG 4326) c p)
               = Min ((\<lambda>row. distance (geometry row) (to_crs (EPSG 4326) c p)) ` set (gdf_rows gdf))
             \<and> code_qp (qpv_plus_proche r) = row_get (gdf_columns gdf) row COL_CODE_QP
             \<and> lib_qp (qpv_plus_proche r) = row_get (gdf_columns gdf) row COL_LIB_QP
             \<and> commune_qp (qpv_plus_proche r) = row_get (gdf_columns gdf) row COL_LIB_COM)
       \<and> (consistent_geometry contains distance (gdf_rows gdf) (to_crs (EPSG 4326) c p) \<longrightarrow>
            (\<exists>row \<in> set (gdf_rows gdf). contains (geometry row) (to_crs (EPSG 4326) c p)) \<longrightarrow>
            est_dans_qpv r \<and> distance_km r = 0)"
proof -
  let ?p = "to_crs (EPSG 4326) c p"
  let ?M = "Min ((\<lambda>row. distance (geometry row) ?p) ` set (gdf_rows gdf))"
  assume "gdf_crs gdf = Some c" and "\<not> gdf_empty gdf"
  then have crs: "gdf_crs gdf = Some c" and rows: "gdf_rows gdf \<noteq> []"
    by (auto simp: gdf_empty_def)
  from calcul_proximite_qpv_value [OF crs rows, of distance to_crs p contains]
  obtain i r where il: "i < length (gdf_rows gdf)"
    and di: "distance (geometry (gdf_rows gdf ! i)) ?p = true_min_distance distance ?p (gdf_rows gdf)"
    and r: "calcul_proximite_qpv to_crs contains distance (Some p) gdf = Inr (Some r)"
    and km: "distance_km r = true_min_distance distance ?p (gdf_rows gdf) / 1000"
    and e: "est_dans_qpv r = (filter (\<lambda>row. contains (geometry row) ?p) (gdf_rows gdf) \<noteq> [])"
    and c1: "code_qp (qpv_plus_proche r) = row_get (gdf_columns gdf) (gdf_rows gdf ! i) COL_CODE_QP"
    and c2: "lib_qp (qpv_plus_proche r) = row_get (gdf_columns gdf) (gdf_rows gdf ! i) COL_LIB_QP"
    and c3: "commune_qp (qpv_plus_proche r) = row_get (gdf_columns gdf) (gdf_rows gdf ! i) COL_LIB_COM"
    by force
  have t: "true_min_distance distance ?p (gdf_rows gdf) = ?M"
    by (simp add: true_min_distance_def)
  have km': "distance_km r = ?M / 1000" using km t by simp
  have near: "\<exists>row \<in> set (gdf_rows gdf).
             distance (geometry row) ?p = ?M
             \<and> code_qp (qpv_plus_proche r) = row_get (gdf_columns gdf) row COL_CODE_QP
             \<and> lib_qp (qpv_plus_proche r) = row_get (gdf_columns gdf) row COL_LIB_QP
             \<and> commune_qp (qpv_plus_proche r) = row_get (gdf_columns gdf) row COL_LIB_COM"
  proof (rule bexI [of _ "gdf_rows gdf ! i"])
    show "gdf_rows gdf ! i \<in> set (gdf_rows gdf)" using il by simp
    show "distance (geometry (gdf_rows gdf ! i)) ?p = ?M
             \<and> code_qp (qpv_plus_proche r) = row_get (gdf_columns gdf) (gdf_rows gdf ! i) COL_CODE_QP
             \<and> lib_qp (qpv_plus_proche r) = row_get (gdf_columns gdf) (gdf_rows gdf ! i) COL_LIB_QP
             \<and> commune_qp (qpv_plus_proche r) = row_get (gdf_columns gdf) (gdf_rows gdf ! i) COL_LIB_COM"
      using di t c1 c2 c3 by simp
  qed
  have inside: "est_dans_qpv r \<and> distance_km r = 0"
    if lib: "consistent_geometry contains distance (gdf_rows gdf) ?p"
      and ex: "\<exists>row \<in> set (gdf_rows gdf). contains (geometry row) ?p"
  proof -
    from ex obtain row where row: "row \<in> set (gdf_rows gdf)" and co: "contains (geometry row) ?p"
      by blast
    from lib row co have z: "distance (geometry row) ?p = 0"
      by (simp add: consistent_geometry_def)
    from lib have nonneg: "\<forall>row \<in> set (gdf_rows gdf). 0 \<le> distance (geometry row) ?p"
      by (simp add: consistent_geometry_def)
    from true_min_distance_bounds(2) [OF rows, of distance ?p] row z
    have up: "true_min_distance distance ?p (gdf_rows gdf) \<le> 0" by force
    from true_min_distance_bounds(1) [OF rows, of distance ?p] nonneg
    have lo: "0 \<le> true_min_distance distance ?p (gdf_rows gdf)" by force
    from up lo km have "distance_km r = 0" by simp
    moreover from row co have "est_dans_qpv r" unfolding e by (auto simp: filter_empty_conv)
    ultimately show ?thesis by simp
  qed
  from r km' near inside show ?thesis by blast
qed

theorem distance_km_is_minimum_witness:
  "gdf_crs example_qpv = Some (EPSG 2154) \<and> \<not> gdf_empty example_qpv
   \<and> plane_to_crs (EPSG 4326) (EPSG 2154) (5, 7) = (5, 7)
   \<and> box_contains (Box 0 0 10 10) (5, 7) \<and> box_distance (Box 0 0 10 10) (5, 7) = 0
   \<and> box_contains (Box 0 5 10 20) (5, 7) \<and> box_distance (Box 0 5 10 20) (5, 7) = 0
   \<and> \<not> box_contains (Box 0 2020 10 2030) (5, 7) \<and> 0 \<le> box_distance (Box 0 2020 10 2030) (5, 7)
   \<and> (\<exists>r. calcul_proximite_qpv plane_to_crs box_contains box_distance (Some (5, 7))
          example_qpv = Inr (Some r)
        \<and> est_dans_qpv r \<and> distance_km r = 0
        \<and> code_qp (qpv_plus_proche r) = Some (CStr ''QP1''))"
proof -
  have h: "gdf_crs example_qpv = Some (EPSG 2154)" "\<not> gdf_empty example_qpv"
    by (simp_all add: example_qpv_def gdf_empty_def)
  have lib: "consistent_geometry box_contains box_distance (gdf_rows example_qpv)
        (plane_to_crs (EPSG 4326) (EPSG 2154) (5, 7))"
    by (rule box_consistent_geometry)
  have ex: "\<exists>row \<in> set (gdf_rows example_qpv).
         box_contains (geometry row) (plane_to_crs (EPSG 4326) (EPSG 2154) (5, 7))"
    by (simp add: example_qpv_def plane_to_crs_def)
  from distance_km_is_minimum [OF h, of plane_to_crs box_contains box_distance "(5, 7)"] lib ex
  obtain r where r: "calcul_proximite_qpv plane_to_crs box_contains box_distance (Some (5, 7))
          example_qpv = Inr (Some r)" and v: "est_dans_qpv r \<and> distance_km r = 0"
    by blast
  from r have "code_qp (qpv_plus_proche r) = Some (CStr ''QP1'')"
    by (auto simp: example_inside)
  moreover have "plane_to_crs (EPSG 4326) (EPSG 2154) (5, 7) = (5, 7)"
    by (simp add: plane_to_crs_def)
  moreover have "box_contains (Box 0 0 10 10) (5, 7) \<and> box_distance (Box 0 0 10 10) (5, 7) = 0
      \<and> box_contains (Box 0 5 10 20) (5, 7) \<and> box_distance (Box 0 5 10 20) (5, 7) = 0
      \<and> \<not> box_contains (Box 0 2020 10 2030) (5, 7) \<and> 0 \<le> box_distance (Box 0 2020 10 2030) (5, 7)"
    by (simp add: box_distance_aligned_x gap_def del: box_distance.simps)
  ultimately show ?thesis using h r v by blast
qed

text \<open>
  Claim C5. For every point that lies outside every polygon of a non-empty polygon set,
  the record returned has \<^verbatim>\<open>est_dans_qpv\<close> false and a positive \<^verbatim>\<open>distance_km\<close>, equal
  to the true minimum planar distance to the polygon set (recomputed over all the
  polygons), in kilometres.
\<close>

theorem outside_every_polygon:
  "gdf_crs gdf = Some c \<Longrightarrow> \<not> gdf_empty gdf \<Longrightarrow>
   \<forall>row \<in> set (gdf_rows gdf). outside contains distance (geometry row) (to_crs (EPSG 4326) c p) \<Longrightarrow>
   \<exists>r. calcul_proximite_qpv to_crs contains distance (Some p) gdf = Inr (Some r)
       \<and> \<not> est_dans_qpv r
       \<and> 0 < distance_km r
       \<and> distance_km r = true_min_distance distance (to_crs (EPSG 4326) c p) (gdf_rows gdf) / 1000"
proof -
  let ?p = "to_crs (EPSG 4326) c p"
  assume "gdf_crs gdf = Some c" and "\<not> gdf_empty gdf"
    and out: "\<forall>row \<in> set (gdf_rows gdf). outside contains distance (geometry row) ?p"
  then have crs: "gdf_crs gdf = Some c" and rows: "gdf_rows gdf \<noteq> []"
    by (auto simp: gdf_empty_def)
  from calcul_proximite_qpv_value [OF crs rows, of distance to_crs p contains]
  obtain r where r: "calcul_proximite_qpv to_crs contains distance (Some p) gdf = Inr (Some r)"
    and km: "distance_km r = true_min_distance distance ?p (gdf_rows gdf) / 1000"
    and e: "est_dans_qpv r = (filter (\<lambda>row. contains (geometry row) ?p) (gdf_rows gdf) \<noteq> [])"
    by force
  from out have "\<not> est_dans_qpv r"
    unfolding e by (auto simp: filter_empty_conv outside_def)
  moreover from true_min_distance_bounds(1) [OF rows, of distance ?p] out
  have "0 < true_min_distance distance ?p (gdf_rows gdf)"
    by (auto simp: outside_def)
  then have "0 < distance_km r" using km by simp
  ultimately show ?thesis using r km by blast
qed

theorem outside_every_polygon_witness:
  "gdf_crs example_qpv = Some (EPSG 2154) \<and> \<not> gdf_empty example_qpv
   \<and> plane_to_crs (EPSG 4326) (EPSG 2154) (5, 5000) = (5, 5000)
   \<and> outside box_contains box_distance (Box 0 0 10 10) (5, 5000)
   \<and> outside box_contains box_distance (Box 0 5 10 20) (5, 5000)
   \<and> outside box_contains box_distance (Box 0 2020 10 2030) (5, 5000)
   \<and> (\<exists>r. calcul_proximite_qpv plane_to_crs box_contains box_distance (Some (5, 5000))
          example_qpv = Inr (Some r)
        \<and> \<not> est_dans_qpv r \<and> 0 < distance_km r \<and> distance_km r = 297 / 100)"
proof -
  have h: "gdf_crs example_qpv = Some (EPSG 2154)" "\<not> gdf_empty example_qpv"
    by (simp_all add: example_qpv_def gdf_empty_def)
  have out: "\<forall>row \<in> set (gdf_rows example_qpv).
         outside box_contains box_distance (geometry row)
           (plane_to_crs (EPSG 4326) (EPSG 2154) (5, 5000))"
    by (simp add: example_qpv_def plane_to_crs_def box_outside_iff)
  from outside_every_polygon
         [of example_qpv "EPSG 2154" box_contains box_distance plane_to_crs "(5, 5000)", OF h out]
  obtain r where r: "calcul_proximite_qpv plane_to_crs box_contains box_distance (Some (5, 5000))
          example_qpv = Inr (Some r)" and v: "\<not> est_dans_qpv r" "0 < distance_km r"
    by blast
  from r have "distance_km r = 297 / 100" by (auto simp: example_far)
  moreover have "plane_to_crs (EPSG 4326) (EPSG 2154) (5, 5000) = (5, 5000)"
    by (simp add: plane_to_crs_def)
  moreover have "outside box_contains box_distance (Box 0 0 10 10) (5, 5000)
      \<and> outside box_contains box_distance (Box 0 5 10 20) (5, 5000)
      \<and> outside box_contains box_distance (Box 0 2020 10 2030) (5, 5000)"
    by (simp add: box_outside_iff)
  ultimately show ?thesis using h r v by blast
qed

text \<open>
  Claim C10. Every record \<^verbatim>\<open>calcul_proximite_qpv\<close> returns is consistent:
  \<^verbatim>\<open>qpv_plus_proche\<close> is a dictionary built from a row of the polygon set, its
  \<^verbatim>\<open>distance_km\<close> is the \<^verbatim>\<open>distance_km\<close> of the record, and \<^verbatim>\<open>est_dans_qpv\<close> is true
  exactly when \<^verbatim>\<open>qpv_dans_lesquels\<close> is not empty.
\<close>

theorem proximity_record_consistent:
  "calcul_proximite_qpv to_crs contains distance pt gdf = Inr (Some r) \<Longrightarrow>
   (\<exists>row \<in> set (gdf_rows gdf).
      qpv_plus_proche r =
        \<lparr>code_qp = row_get (gdf_columns gdf) row COL_CODE_QP,
         lib_qp = row_get (gdf_columns gdf) row COL_LIB_QP,
         commune_qp = row_get (gdf_columns gdf) row COL_LIB_COM,
         nearest_distance_km = distance_km r\<rparr>)
   \<and> nearest_distance_km (qpv_plus_proche r) = distance_km r
   \<and> (est_dans_qpv r \<longleftrightarrow> qpv_dans_lesquels r \<noteq> [])"
proof -
  assume res: "calcul_proximite_qpv to_crs contains distance pt gdf = Inr (Some r)"
  then obtain p c where pt: "pt = Some p" and crs: "gdf_crs gdf = Some c"
    and rows: "gdf_rows gdf \<noteq> []"
    by (rule calcul_proximite_qpv_Some_cases)
  let ?p = "to_crs (EPSG 4326) c p"
  from calcul_proximite_qpv_value [OF crs rows, of distance to_crs p contains] res pt
  obtain i where il: "i < length (gdf_rows gdf)"
    and r: "r = \<lparr>est_dans_qpv =
                  (filter (\<lambda>row. contains (geometry row) ?p) (gdf_rows gdf) \<noteq> []),
                distance_km = true_min_distance distance ?p (gdf_rows gdf) / 1000,
                a_moins_1km_qpv = (true_min_distance distance ?p (gdf_rows gdf) / 1000 \<le> 1),
                qpv_dans_lesquels =
                  map (ident_of (gdf_columns gdf))
                    (filter (\<lambda>row. contains (geometry row) ?p) (gdf_rows gdf)),
                qpv_plus_proche =
                  \<lparr>code_qp = row_get (gdf_columns gdf) (gdf_rows gdf ! i) COL_CODE_QP,
                   lib_qp = row_get (gdf_columns gdf) (gdf_rows gdf ! i) COL_LIB_QP,
                   commune_qp = row_get (gdf_columns gdf) (gdf_rows gdf ! i) COL_LIB_COM,
                   nearest_distance_km = true_min_distance distance ?p (gdf_rows gdf) / 1000\<rparr>\<rparr>"
    by auto
  have mem: "gdf_rows gdf ! i \<in> set (gdf_rows gdf)" using il by simp
  have "\<exists>row \<in> set (gdf_rows gdf).
      qpv_plus_proche r =
        \<lparr>code_qp = row_get (gdf_columns gdf) row COL_CODE_QP,
         lib_qp = row_get (gdf_columns gdf) row COL_LIB_QP,
         commune_qp = row_get (gdf_columns gdf) row COL_LIB_COM,
         nearest_distance_km = distance_km r\<rparr>"
    by (rule bexI [OF _ mem]) (simp add: r)
  moreover have "nearest_distance_km (qpv_plus_proche r) = distance_km r"
    by (simp add: r)
  moreover have "est_dans_qpv r \<longleftrightarrow> qpv_dans_lesquels r \<noteq> []"
    by (simp add: r)
  ultimately show ?thesis by blast
qed

theorem proximity_record_consistent_witness:
  "\<exists>r. calcul_proximite_qpv plane_to_crs box_contains box_distance (Some (5, 1020))
          example_qpv = Inr (Some r)
       \<and> nearest_distance_km (qpv_plus_proche r) = distance_km r
       \<and> (est_dans_qpv r \<longleftrightarrow> qpv_dans_lesquels r \<noteq> [])
       \<and> code_qp (qpv_plus_proche r) = Some (CStr ''QP2'')"
  using proximity_record_consistent [OF example_one_km]
  by (simp add: example_one_km)

section \<open>Claims on the ZRR membership\<close>

text \<open>
  Claim C6. \<^verbatim>\<open>check_zrr_statut\<close> returns (None, None) exactly when the municipality code
  is None or the empty text. For a non-empty code whose normal form is not in the
  membership set it returns (False, None), never (None, None). For a member code it
  returns True with the label of the first row of the table that has the code, or None
  when no row has it (or the table has no label column); the table has its code column.
\<close>

theorem check_zrr_statut_cases:
  "check_zrr_statut PyNone df cs = Inr (None, None)
   \<and> check_zrr_statut (PyStr []) df cs = Inr (None, None)
   \<and> (s \<noteq> [] \<longrightarrow> check_zrr_statut (PyStr s) df cs \<noteq> Inr (None, None))
   \<and> (s \<noteq> [] \<longrightarrow> CStr (zfill 5 s) \<notin> cs \<longrightarrow>
        check_zrr_statut (PyStr s) df cs = Inr (Some False, None))
   \<and> (s \<noteq> [] \<longrightarrow> CStr (zfill 5 s) \<in> cs \<longrightarrow> ''CODGEO'' \<in> set (df_columns df) \<longrightarrow>
        check_zrr_statut (PyStr s) df cs =
          Inr (Some True,
               case List.find (\<lambda>row. row ''CODGEO'' = CStr (zfill 5 s)) (df_rows df) of
                 None \<Rightarrow> None
               | Some row \<Rightarrow>
                   if ZRR_LIB_COL \<in> set (df_columns df) then Some (row ZRR_LIB_COL) else None))"
proof (intro conjI impI)
  show "check_zrr_statut PyNone df cs = Inr (None, None)"
    by (simp add: check_zrr_statut_falsy)
  show "check_zrr_statut (PyStr []) df cs = Inr (None, None)"
    by (simp add: check_zrr_statut_falsy)
next
  assume s: "s \<noteq> []"
  show "check_zrr_statut (PyStr s) df cs \<noteq> Inr (None, None)"
  proof (cases "CStr (zfill 5 s) \<in> cs")
    case False
    with s show ?thesis by (simp add: check_zrr_statut_absent)
  next
    case True
    show ?thesis
    proof (cases "''CODGEO'' \<in> set (df_columns df)")
      case True
      with s \<open>CStr (zfill 5 s) \<in> cs\<close> show ?thesis by (simp add: check_zrr_statut_member)
    next
      case False
      with s \<open>CStr (zfill 5 s) \<in> cs\<close> show ?thesis by (simp add: check_zrr_statut_no_column)
    qed
  qed
next
  assume "s \<noteq> []" and "CStr (zfill 5 s) \<notin> cs"
  then show "check_zrr_statut (PyStr s) df cs = Inr (Some False, None)"
    by (simp add: check_zrr_statut_absent)
next
  assume "s \<noteq> []" and "CStr (zfill 5 s) \<in> cs" and "''CODGEO'' \<in> set (df_columns df)"
  then show "check_zrr_statut (PyStr s) df cs =
          Inr (Some True,
               case List.find (\<lambda>row. row ''CODGEO'' = CStr (zfill 5 s)) (df_rows df) of
                 None \<Rightarrow> None
               | Some row \<Rightarrow>
                   if ZRR_LIB_COL \<in> set (df_columns df) then Some (row ZRR_LIB_COL) else None)"
    using check_zrr_statut_member [of "PyStr s" cs df] by simp
qed

theorem check_zrr_statut_cases_witness:
  "check_zrr_statut PyNone example_df {CStr ''01234''} = Inr (None, None)
   \<and> check_zrr_statut (PyStr '''') example_df {CStr ''01234''} = Inr (None, None)
   \<and> ''99999'' \<noteq> [] \<and> CStr (zfill 5 ''99999'') \<notin> {CStr ''01234''}
   \<and> check_zrr_statut (PyStr ''99999'') example_df {CStr ''01234''} = Inr (Some False, None)
   \<and> ''1234'' \<noteq> [] \<and> CStr (zfill 5 ''1234'') \<in> {CStr ''01234''}
   \<and> ''CODGEO'' \<in> set (df_columns example_df)
   \<and> check_zrr_statut (PyStr ''1234'') example_df {CStr ''01234''}
       = Inr (Some True, Some (CStr ''Commune A''))"
  using check_zrr_statut_cases [of example_df "{CStr ''01234''}" "''99999''"]
    check_zrr_statut_cases [of example_df "{CStr ''01234''}" "''1234''"]
  by (simp add: zfill_def example_df_def row_of_def ZRR_LIB_COL_def)

text \<open>
  Claim C7. The normalisation of the municipality code does not depend on how the code
  is written: the texts "1234" and "01234" and the number 1234 all normalise to the
  five-character text "01234", at query time and at load time, and
  \<^verbatim>\<open>check_zrr_statut\<close> returns the same result for the three, whatever the table.
\<close>

theorem code_normalisation_invariant:
  "zfill 5 (py_str (PyStr ''1234'')) = ''01234''
   \<and> zfill 5 (py_str (PyStr ''01234'')) = ''01234''
   \<and> zfill 5 (py_str (PyInt 1234)) = ''01234''
   \<and> normalise_CODGEO (row(''CODGEO'' := CStr ''1234'')) ''CODGEO'' = CStr ''01234''
   \<and> normalise_CODGEO (row(''CODGEO'' := CStr ''01234'')) ''CODGEO'' = CStr ''01234''
   \<and> normalise_CODGEO (row(''CODGEO'' := CInt 1234)) ''CODGEO'' = CStr ''01234''
   \<and> check_zrr_statut (PyStr ''1234'') df cs = check_zrr_statut (PyStr ''01234'') df cs
   \<and> check_zrr_statut (PyInt 1234) df cs = check_zrr_statut (PyStr ''01234'') df cs"
proof (intro conjI)
  show "zfill 5 (py_str (PyStr ''1234'')) = ''01234''" by (simp add: zfill_1234)
  show "zfill 5 (py_str (PyStr ''01234'')) = ''01234''" by (simp add: zfill_01234)
  show "zfill 5 (py_str (PyInt 1234)) = ''01234''" by (simp add: str_int_1234 zfill_1234)
  show "normalise_CODGEO (row(''CODGEO'' := CStr ''1234'')) ''CODGEO'' = CStr ''01234''"
    by (simp add: normalise_CODGEO_def zfill_1234)
  show "normalise_CODGEO (row(''CODGEO'' := CStr ''01234'')) ''CODGEO'' = CStr ''01234''"
    by (simp add: normalise_CODGEO_def zfill_01234)
  show "normalise_CODGEO (row(''CODGEO'' := CInt 1234)) ''CODGEO'' = CStr ''01234''"
    by (simp add: normalise_CODGEO_def str_int_1234 zfill_1234)
  show "check_zrr_statut (PyStr ''1234'') df cs = check_zrr_statut (PyStr ''01234'') df cs"
    by (rule check_zrr_statut_cong) (simp_all add: zfill_1234 zfill_01234)
  show "check_zrr_statut (PyInt 1234) df cs = check_zrr_statut (PyStr ''01234'') df cs"
    by (rule check_zrr_statut_cong) (simp_all add: str_int_1234 zfill_1234 zfill_01234)
qed

theorem code_normalisation_invariant_witness:
  "check_zrr_statut (PyStr ''1234'') example_df {CStr ''01234''}
     = Inr (Some True, Some (CStr ''Commune A''))
   \<and> check_zrr_statut (PyStr ''01234'') example_df {CStr ''01234''}
     = Inr (Some True, Some (CStr ''Commune A''))
   \<and> check_zrr_statut (PyInt 1234) example_df {CStr ''01234''}
     = Inr (Some True, Some (CStr ''Commune A''))"
proof -
  have "check_zrr_statut (PyStr ''01234'') example_df {CStr ''01234''}
     = Inr (Some True, Some (CStr ''Commune A''))"
    by (simp add: check_zrr_statut_def zfill_def example_df_def row_of_def ZRR_LIB_COL_def)
  with code_normalisation_invariant [of undefined example_df "{CStr ''01234''}"]
  show ?thesis by simp
qed

section \<open>Claims on the loaders\<close>



text \<open>
  Claim C9. \<^verbatim>\<open>load_qpv_polygones\<close> returns the empty GeoDataFrame, and no error, when
  the file is absent. When the file declares no CRS it raises ValueError (the
  configuration error). When the declared CRS is not EPSG:2154 it reprojects each
  geometry to EPSG:2154, once, keeping the attributes; a file already in EPSG:2154 is
  returned as read. So every polygon set returned that has rows is in EPSG:2154.
\<close>

theorem load_qpv_polygones_spec:
  "(fs path = None \<longrightarrow>
      load_qpv_polygones to_crs_geom fs path = Inr GeoDataFrame_empty
      \<and> gdf_empty (GeoDataFrame_empty :: 'g geodataframe))
   \<and> (fs path = Some gdf \<longrightarrow> gdf_crs gdf = None \<longrightarrow>
        load_qpv_polygones to_crs_geom fs path = Inl ValueError)
   \<and> (fs path = Some gdf \<longrightarrow> gdf_crs gdf = Some c \<longrightarrow> to_epsg c = Some 2154 \<longrightarrow>
        load_qpv_polygones to_crs_geom fs path = Inr gdf)
   \<and> (fs path = Some gdf \<longrightarrow> gdf_crs gdf = Some c \<longrightarrow> to_epsg c \<noteq> Some 2154 \<longrightarrow>
        load_qpv_polygones to_crs_geom fs path =
          Inr \<lparr>gdf_crs = Some (EPSG 2154),
               gdf_columns = gdf_columns gdf,
               gdf_rows =
                 map (\<lambda>row. \<lparr>geometry = to_crs_geom c (EPSG 2154) (geometry row),
                              attrs = attrs row\<rparr>) (gdf_rows gdf)\<rparr>)
   \<and> (load_qpv_polygones to_crs_geom fs path = Inr out \<longrightarrow> \<not> gdf_empty out \<longrightarrow>
        (\<exists>c'. gdf_crs out = Some c' \<and> to_epsg c' = Some 2154))"
proof (intro conjI impI)
  assume "fs path = None"
  then show "load_qpv_polygones to_crs_geom fs path = Inr GeoDataFrame_empty"
    by (simp add: load_qpv_polygones_def)
next
  show "gdf_empty (GeoDataFrame_empty :: 'g geodataframe)"
    by (simp add: gdf_empty_def GeoDataFrame_empty_def)
next
  assume "fs path = Some gdf" and "gdf_crs gdf = None"
  then show "load_qpv_polygones to_crs_geom fs path = Inl ValueError"
    by (simp add: load_qpv_polygones_def)
next
  assume "fs path = Some gdf" and "gdf_crs gdf = Some c" and "to_epsg c = Some 2154"
  then show "load_qpv_polygones to_crs_geom fs path = Inr gdf"
    by (simp add: load_qpv_polygones_def)
next
  assume "fs path = Some gdf" and "gdf_crs gdf = Some c" and "to_epsg c \<noteq> Some 2154"
  then have "load_qpv_polygones to_crs_geom fs path = Inr (gdf_to_crs to_crs_geom c (EPSG 2154) gdf)"
    by (simp add: load_qpv_polygones_def)
  moreover have "gdf_to_crs to_crs_geom c (EPSG 2154) gdf =
          \<lparr>gdf_crs = Some (EPSG 2154),
           gdf_columns = gdf_columns gdf,
           gdf_rows =
             map (\<lambda>row. \<lparr>geometry = to_crs_geom c (EPSG 2154) (geometry row),
                          attrs = attrs row\<rparr>) (gdf_rows gdf)\<rparr>"
    by (simp add: gdf_to_crs_def)
  ultimately show "load_qpv_polygones to_crs_geom fs path =
          Inr \<lparr>gdf_crs = Some (EPSG 2154),
               gdf_columns = gdf_columns gdf,
               gdf_rows =
                 map (\<lambda>row. \<lparr>geometry = to_crs_geom c (EPSG 2154) (geometry row),
                              attrs = attrs row\<rparr>) (gdf_rows gdf)\<rparr>"
    by simp
next
  assume "load_qpv_polygones to_crs_geom fs path = Inr out" and "\<not> gdf_empty out"
  then show "\<exists>c'. gdf_crs out = Some c' \<and> to_epsg c' = Some 2154"
    by (rule load_qpv_polygones_planar)
qed

theorem load_qpv_polygones_spec_witness:
  "example_qpv_fs ''absent.gpkg'' = None
   \<and> load_qpv_polygones shift_box example_qpv_fs ''absent.gpkg'' = Inr GeoDataFrame_empty
   \<and> example_qpv_fs ''no_crs.gpkg'' = Some example_qpv_no_crs
   \<and> gdf_crs example_qpv_no_crs = None
   \<and> load_qpv_polygones shift_box example_qpv_fs ''no_crs.gpkg'' = Inl ValueError
   \<and> example_qpv_fs ''lambert93.gpkg'' = Some example_qpv
   \<and> gdf_crs example_qpv = Some (EPSG 2154) \<and> to_epsg (EPSG 2154) = Some 2154
   \<and> load_qpv_polygones shift_box example_qpv_fs ''lambert93.gpkg'' = Inr example_qpv
   \<and> example_qpv_fs QPV_GEO_PATH = Some example_qpv_wgs84
   \<and> gdf_crs example_qpv_wgs84 = Some (EPSG 4326) \<and> to_epsg (EPSG 4326) \<noteq> Some 2154
   \<and> (\<exists>out. load_qpv_polygones shift_box example_qpv_fs QPV_GEO_PATH = Inr out
          \<and> \<not> gdf_empty out
          \<and> gdf_crs out = Some (EPSG 2154)
          \<and> map geometry (gdf_rows out) = [Box 1 0 11 10, Box 1 5 11 20, Box 1 2020 11 2030])"
proof -
  have f: "example_qpv_fs ''absent.gpkg'' = None"
    "example_qpv_fs ''no_crs.gpkg'' = Some example_qpv_no_crs"
    "example_qpv_fs ''lambert93.gpkg'' = Some example_qpv"
    "example_qpv_fs QPV_GEO_PATH = Some example_qpv_wgs84"
    by (simp_all add: example_qpv_fs_def QPV_GEO_PATH_def)
  have c: "gdf_crs example_qpv_no_crs = None" "gdf_crs example_qpv = Some (EPSG 2154)"
    "gdf_crs example_qpv_wgs84 = Some (EPSG 4326)"
    by (simp_all add: example_qpv_no_crs_def example_qpv_wgs84_def example_qpv_def)
  have e: "to_epsg (EPSG 2154) = Some 2154" "to_epsg (EPSG 4326) \<noteq> Some 2154"
    by simp_all
  from load_qpv_polygones_spec [of example_qpv_fs "''absent.gpkg''" shift_box] f(1)
  have r1: "load_qpv_polygones shift_box example_qpv_fs ''absent.gpkg'' = Inr GeoDataFrame_empty"
    by blast
  from load_qpv_polygones_spec
         [of example_qpv_fs "''no_crs.gpkg''" shift_box example_qpv_no_crs] f(2) c(1)
  have r2: "load_qpv_polygones shift_box example_qpv_fs ''no_crs.gpkg'' = Inl ValueError"
    by blast
  from load_qpv_polygones_spec
         [of example_qpv_fs "''lambert93.gpkg''" shift_box example_qpv "EPSG 2154"] f(3) c(2) e(1)
  have r3: "load_qpv_polygones shift_box example_qpv_fs ''lambert93.gpkg'' = Inr example_qpv"
    by blast
  from load_qpv_polygones_spec
         [of example_qpv_fs QPV_GEO_PATH shift_box example_qpv_wgs84 "EPSG 4326"] f(4) c(3) e(2)
  have r4: "load_qpv_polygones shift_box example_qpv_fs QPV_GEO_PATH =
          Inr \<lparr>gdf_crs = Some (EPSG 2154),
               gdf_columns = gdf_columns example_qpv_wgs84,
               gdf_rows =
                 map (\<lambda>row. \<lparr>geometry = shift_box (EPSG 4326) (EPSG 2154) (geometry row),
                              attrs = attrs row\<rparr>) (gdf_rows example_qpv_wgs84)\<rparr>"
    by blast
  have "\<exists>out. load_qpv_polygones shift_box example_qpv_fs QPV_GEO_PATH = Inr out
          \<and> \<not> gdf_empty out
          \<and> gdf_crs out = Some (EPSG 2154)
          \<and> map geometry (gdf_rows out) = [Box 1 0 11 10, Box 1 5 11 20, Box 1 2020 11 2030]"
    unfolding r4 by (simp add: gdf_empty_def example_qpv_wgs84_def example_qpv_def)
  with f c e r1 r2 r3 show ?thesis by blast
qed

end
